theory Spec2Isabelle
  imports Main "HOL-Library.Word"
begin

unbundle bit_operations_syntax

section \<open>Data model of \<^verbatim>\<open>src/ebpf/afxdp.c\<close>\<close>

type_synonym u32 = "32 word"
type_synonym u64 = "64 word"

text \<open>
  \<^verbatim>\<open>struct xdp_md\<close>, the frame delivery context an XDP program receives. The type comes
  from \<^verbatim>\<open>vmlinux.h\<close>, which is generated and not part of the sources; the record lists
  the fields of the kernel's user-visible declaration. The program reads
  \<^verbatim>\<open>rx_queue_index\<close> only.
\<close>

record xdp_md =
  data :: u32
  data_end :: u32
  data_meta :: u32
  ingress_ifindex :: u32
  rx_queue_index :: u32
  egress_ifindex :: u32

text \<open>
  \<^verbatim>\<open>enum xdp_action\<close> of \<^verbatim>\<open>vmlinux.h\<close>: the verdicts an XDP program can return. The
  program names \<^verbatim>\<open>XDP_PASS\<close>; the helper \<^verbatim>\<open>bpf_redirect_map\<close> produces
  \<^verbatim>\<open>XDP_REDIRECT\<close> or, when its own lookup fails, the low two bits of its flags argument.
\<close>

definition XDP_ABORTED :: u32 where "XDP_ABORTED = 0"
definition XDP_DROP :: u32 where "XDP_DROP = 1"
definition XDP_PASS :: u32 where "XDP_PASS = 2"
definition XDP_TX :: u32 where "XDP_TX = 3"
definition XDP_REDIRECT :: u32 where "XDP_REDIRECT = 4"

text \<open>
  The map \<^verbatim>\<open>xsks_map\<close> (lines 4 to 9): type \<^verbatim>\<open>BPF_MAP_TYPE_XSKMAP\<close>, 32-bit keys and
  values, \<^verbatim>\<open>max_entries = 64\<close>. A map of this type is an array of \<^verbatim>\<open>max_entries\<close>
  slots indexed by the key; a slot is empty or holds a socket. The contents are a list of
  optional socket identifiers, one per slot.
\<close>

datatype bpf_map_type = BPF_MAP_TYPE_UNSPEC | BPF_MAP_TYPE_XSKMAP

definition max_entries :: u32 where
  "max_entries = 64"

type_synonym xskmap = "u32 option list"

definition xsks_map_created :: xskmap where
  "xsks_map_created = replicate (unat max_entries) None"

definition xskmap_ok :: "xskmap \<Rightarrow> bool" where
  "xskmap_ok m \<longleftrightarrow> length m = unat max_entries"

text \<open>
  The Registry entries of the specification, read off the slots: the pairs of a queue
  index and the socket bound to it, in index order.
\<close>

fun entries_from :: "nat \<Rightarrow> xskmap \<Rightarrow> (u32 \<times> u32) list" where
  "entries_from i [] = []"
| "entries_from i (None # xs) = entries_from (Suc i) xs"
| "entries_from i (Some sock # xs) = (of_nat i, sock) # entries_from (Suc i) xs"

definition entries :: "xskmap \<Rightarrow> (u32 \<times> u32) list" where
  "entries m = entries_from 0 m"

section \<open>Kernel state and helpers\<close>

text \<open>
  What the program can touch: the contents of \<^verbatim>\<open>xsks_map\<close>, the redirect target that
  \<^verbatim>\<open>bpf_redirect_map\<close> records for the hand-off after the program returns (the kernel's
  \<^verbatim>\<open>struct bpf_redirect_info\<close>), and, as a ghost field, the helper calls made so far.
  The map is shared with the control plane, which may write it at any time, also between
  two helper calls of one invocation.
\<close>

record bpf_redirect_info =
  tgt_index :: u32
  tgt_value :: "u32 option"
  map_type :: bpf_map_type
  flags :: u64

datatype helper_call = Call_map_lookup_elem u32 | Call_redirect_map u64 u64

record kernel_state =
  xsks_map :: xskmap
  ri :: bpf_redirect_info
  helper_calls :: "helper_call list"

text \<open>
  The slot read shared by both helpers: a key at or beyond \<^verbatim>\<open>max_entries\<close> yields
  \<^verbatim>\<open>NULL\<close>, any other key yields its slot.
\<close>

definition xsk_map_lookup_elem :: "xskmap \<Rightarrow> u32 \<Rightarrow> u32 option" where
  "xsk_map_lookup_elem m key = (if max_entries \<le> key then None else m ! unat key)"

text \<open>
  \<^verbatim>\<open>bpf_map_lookup_elem(&xsks_map, &index)\<close>: a kernel helper, external to the repository,
  modelled after its documented contract: the entry associated to the key, or \<^verbatim>\<open>NULL\<close>.
  It changes nothing but the ghost trace.
\<close>

definition bpf_map_lookup_elem :: "u32 \<Rightarrow> kernel_state \<Rightarrow> u32 option \<times> kernel_state" where
  "bpf_map_lookup_elem key s =
     (xsk_map_lookup_elem (xsks_map s) key,
      s\<lparr>helper_calls := helper_calls s @ [Call_map_lookup_elem key]\<rparr>)"

text \<open>
  \<^verbatim>\<open>bpf_redirect_map(&xsks_map, key, flags)\<close>: a kernel helper, external to the repository,
  modelled after its documented contract. Flags outside the action mask are refused with
  \<^verbatim>\<open>XDP_ABORTED\<close> (this map type accepts no other flag). Otherwise the helper looks the
  key up itself: on a hit it records the target and returns \<^verbatim>\<open>XDP_REDIRECT\<close>; on a miss
  it clears the recorded target and returns the low two bits of the flags.
\<close>

definition bpf_redirect_map :: "u64 \<Rightarrow> u64 \<Rightarrow> kernel_state \<Rightarrow> u64 \<times> kernel_state" where
  "bpf_redirect_map key fl s =
     (let s' = s\<lparr>helper_calls := helper_calls s @ [Call_redirect_map key fl]\<rparr> in
      if fl AND NOT 3 \<noteq> 0 then (ucast XDP_ABORTED, s')
      else
        (case xsk_map_lookup_elem (xsks_map s') (ucast key) of
           None \<Rightarrow>
             (fl AND 3,
              s'\<lparr>ri := (ri s')\<lparr>tgt_value := None, map_type := BPF_MAP_TYPE_UNSPEC\<rparr>\<rparr>)
         | Some sock \<Rightarrow>
             (ucast XDP_REDIRECT,
              s'\<lparr>ri := \<lparr>tgt_index = ucast key, tgt_value = Some sock,
                         map_type = BPF_MAP_TYPE_XSKMAP, flags = fl\<rparr>\<rparr>)))"

section \<open>The XDP program\<close>

text \<open>
  \<^verbatim>\<open>xsk_redir_prog\<close> (lines 12 to 19), run with no write to the map between its two
  helper calls. The \<^verbatim>\<open>__u32\<close> index is widened to the helper's 64-bit key, and the
  helper's \<^verbatim>\<open>long\<close> result is narrowed to the program's \<^verbatim>\<open>int\<close>.
\<close>

definition xsk_redir_prog :: "xdp_md \<Rightarrow> kernel_state \<Rightarrow> u32 \<times> kernel_state" where
  "xsk_redir_prog ctx s =
     (let index = rx_queue_index ctx;
          (p, s1) = bpf_map_lookup_elem index s
      in if p \<noteq> None then
           (let (r, s2) = bpf_redirect_map (ucast index) 0 s1 in (ucast r, s2))
         else (XDP_PASS, s1))"

section \<open>The control plane\<close>

text \<open>
  Modelled from the spec: the control plane's bind and unbind operations are not under
  \<^verbatim>\<open>src/\<close>; only the table they write is declared there. Following sections 3 and 4.1
  of the specification on the table the source declares (64 slots, addressed by queue index):
  a bind stores the socket in the slot of the queue, replacing what the slot held; a bind
  that no slot can take is rejected and changes nothing; an unbind empties the slot.
\<close>

datatype ctl_result = Accepted | Rejected

definition bind_queue :: "u32 \<Rightarrow> u32 \<Rightarrow> xskmap \<Rightarrow> ctl_result \<times> xskmap" where
  "bind_queue q sock m =
     (if max_entries \<le> q then (Rejected, m) else (Accepted, m[unat q := Some sock]))"

definition unbind_queue :: "u32 \<Rightarrow> xskmap \<Rightarrow> ctl_result \<times> xskmap" where
  "unbind_queue q m =
     (if max_entries \<le> q then (Rejected, m) else (Accepted, m[unat q := None]))"

text \<open>A history of the control plane, applied to the table as created (all slots empty).\<close>

datatype ctl_op = Bind u32 u32 | Unbind u32

fun ctl_step :: "ctl_op \<Rightarrow> xskmap \<Rightarrow> xskmap" where
  "ctl_step (Bind q sock) m = snd (bind_queue q sock m)"
| "ctl_step (Unbind q) m = snd (unbind_queue q m)"

definition ctl_run :: "ctl_op list \<Rightarrow> xskmap" where
  "ctl_run ops = fold ctl_step ops xsks_map_created"

section \<open>The XDP program beside a running control plane\<close>

text \<open>
  Lines 16 and 17 are two separate reads of the shared map: the lookup of line 16, and the
  lookup that \<^verbatim>\<open>bpf_redirect_map\<close> makes on line 17. The same body as
  \<^verbatim>\<open>xsk_redir_prog\<close>, with the control-plane operations \<open>between\<close> applied to the map
  after the first read and before the second.
\<close>

definition xsk_redir_prog_interleaved ::
  "ctl_op list \<Rightarrow> xdp_md \<Rightarrow> kernel_state \<Rightarrow> u32 \<times> kernel_state" where
  "xsk_redir_prog_interleaved between ctx s =
     (let index = rx_queue_index ctx;
          (p, s1) = bpf_map_lookup_elem index s
      in if p \<noteq> None then
           (let s1' = s1\<lparr>xsks_map := fold ctl_step between (xsks_map s1)\<rparr>;
                (r, s2) = bpf_redirect_map (ucast index) 0 s1'
            in (ucast r, s2))
         else (XDP_PASS, s1))"

section \<open>Scenarios\<close>

text \<open>
  Concrete inputs for the scenarios of section 8 of the specification: a frame that
  arrived on a given queue, a kernel state around given map contents with no redirect
  target recorded and no helper called yet, and the history that binds all 64 queues.
\<close>

definition frame_on :: "u32 \<Rightarrow> xdp_md" where
  "frame_on q = \<lparr>data = 0, data_end = 0, data_meta = 0, ingress_ifindex = 1,
                 rx_queue_index = q, egress_ifindex = 0\<rparr>"

definition kernel_with :: "xskmap \<Rightarrow> kernel_state" where
  "kernel_with m = \<lparr>xsks_map = m,
      ri = \<lparr>tgt_index = 0, tgt_value = None, map_type = BPF_MAP_TYPE_UNSPEC, flags = 0\<rparr>,
      helper_calls = []\<rparr>"

definition bind_all_queues :: "ctl_op list" where
  "bind_all_queues = map (\<lambda>i. Bind (of_nat i) (of_nat i + 100)) [0..<64]"

section \<open>Properties\<close>

subsection \<open>The table\<close>

lemma max_entries_unat: "unat max_entries = 64"
  by (simp add: max_entries_def)

lemma max_entries_le_iff: "max_entries \<le> q \<longleftrightarrow> 64 \<le> unat q"
  by (simp add: max_entries_def word_le_nat_alt)

lemma widen_narrow_index: "(ucast (ucast (q :: u32) :: u64) :: u32) = q"
  by (simp add: ucast_down_ucast_id is_down)

lemma entries_from_iff:
  "(q, sock) \<in> set (entries_from i xs) \<longleftrightarrow>
     (\<exists>k < length xs. q = of_nat (i + k) \<and> xs ! k = Some sock)"
  by (induction i xs rule: entries_from.induct) (auto simp: Ex_less_Suc2)

lemma entries_iff:
  assumes "xskmap_ok m"
  shows "(q, sock) \<in> set (entries m) \<longleftrightarrow> unat q < 64 \<and> m ! unat q = Some sock"
proof -
  have len: "length m = 64"
    using assms by (simp add: xskmap_ok_def max_entries_unat)
  have "(q, sock) \<in> set (entries m) \<longleftrightarrow> (\<exists>k < 64. q = of_nat k \<and> m ! k = Some sock)"
    by (simp add: entries_def entries_from_iff len)
  also have "\<dots> \<longleftrightarrow> unat q < 64 \<and> m ! unat q = Some sock"
  proof
    assume "\<exists>k < 64. q = of_nat k \<and> m ! k = Some sock"
    then obtain k where k: "k < 64" "q = of_nat k" "m ! k = Some sock"
      by blast
    have "unat q = k"
      using k(1,2) by (simp add: unat_of_nat)
    then show "unat q < 64 \<and> m ! unat q = Some sock"
      using k by simp
  next
    assume slot: "unat q < 64 \<and> m ! unat q = Some sock"
    show "\<exists>k < 64. q = of_nat k \<and> m ! k = Some sock"
      by (rule exI [of _ "unat q"]) (use slot in simp)
  qed
  finally show ?thesis .
qed

lemma lookup_entry:
  assumes "xskmap_ok m"
  shows "xsk_map_lookup_elem m q = Some sock \<longleftrightarrow> (q, sock) \<in> set (entries m)"
  using assms by (auto simp: xsk_map_lookup_elem_def entries_iff max_entries_le_iff)

lemma lookup_miss:
  assumes "xskmap_ok m"
  shows "xsk_map_lookup_elem m q = None \<longleftrightarrow> q \<notin> fst ` set (entries m)"
proof -
  have "q \<in> fst ` set (entries m) \<longleftrightarrow> (\<exists>sock. (q, sock) \<in> set (entries m))"
    by force
  also have "\<dots> \<longleftrightarrow> (\<exists>sock. xsk_map_lookup_elem m q = Some sock)"
    using assms by (simp add: lookup_entry)
  finally show ?thesis by auto
qed

lemma length_entries_from:
  "length (entries_from i xs) = length (filter (\<lambda>x. x \<noteq> None) xs)"
  by (induction i xs rule: entries_from.induct) simp_all

lemma length_entries_le: "length (entries m) \<le> length m"
  by (simp add: entries_def length_entries_from)

lemma entries_full:
  assumes "length (entries m) = length m" and "k < length m"
  shows "m ! k \<noteq> None"
proof -
  have "length (filter (\<lambda>x. x \<noteq> None) m) = length m"
    using assms(1) by (simp add: entries_def length_entries_from)
  then have "\<forall>x \<in> set m. x \<noteq> None"
    using length_filter_less [of _ m "\<lambda>x. x \<noteq> None"] by fastforce
  then show ?thesis
    using assms(2) by simp
qed

lemma distinct_entries_from:
  "i + length xs \<le> 2 ^ 32 \<Longrightarrow> distinct (map fst (entries_from i xs))"
proof (induction i xs rule: entries_from.induct)
  case (3 i sock xs)
  have "(of_nat i :: u32) \<notin> fst ` set (entries_from (Suc i) xs)"
  proof
    assume "(of_nat i :: u32) \<in> fst ` set (entries_from (Suc i) xs)"
    then obtain v where "(of_nat i :: u32, v) \<in> set (entries_from (Suc i) xs)"
      by force
    then obtain k where k: "k < length xs" "(of_nat i :: u32) = of_nat (Suc i + k)"
      unfolding entries_from_iff by blast
    have a: "unat (of_nat i :: u32) = i"
      and b: "unat (of_nat (Suc i + k) :: u32) = Suc i + k"
      using k(1) "3.prems" by (simp_all only: unat_of_nat) simp_all
    from k(2) have "unat (of_nat i :: u32) = unat (of_nat (Suc i + k) :: u32)"
      by (rule arg_cong)
    then have "i = Suc i + k"
      by (simp only: a b)
    then show False by simp
  qed
  with 3 show ?case by simp
qed simp_all

lemma filter_unique_key:
  "distinct (map fst xs) \<Longrightarrow> (q, v) \<in> set xs \<Longrightarrow> filter (\<lambda>e. fst e = q) xs = [(q, v)]"
proof (induction xs)
  case (Cons e xs)
  show ?case
  proof (cases "e = (q, v)")
    case True
    then have "\<forall>e' \<in> set xs. fst e' \<noteq> q"
      using Cons.prems(1) by force
    then have "filter (\<lambda>e. fst e = q) xs = []"
      by (simp add: filter_empty_conv)
    with True show ?thesis by simp
  next
    case False
    then have "(q, v) \<in> set xs"
      using Cons.prems(2) by simp
    moreover have "fst e \<notin> fst ` set xs"
      using Cons.prems(1) by simp
    moreover have "q \<in> fst ` set xs"
      using \<open>(q, v) \<in> set xs\<close> by force
    ultimately show ?thesis
      using Cons by auto
  qed
qed simp

subsection \<open>The control plane keeps the table at 64 slots\<close>

lemma xskmap_ok_created: "xskmap_ok xsks_map_created"
  by (simp add: xskmap_ok_def xsks_map_created_def)

lemma xskmap_ok_step: "xskmap_ok m \<Longrightarrow> xskmap_ok (ctl_step op m)"
  by (cases op) (simp_all add: xskmap_ok_def bind_queue_def unbind_queue_def)

lemma xskmap_ok_fold: "xskmap_ok m \<Longrightarrow> xskmap_ok (fold ctl_step ops m)"
  by (induction ops arbitrary: m) (simp_all add: xskmap_ok_step)

lemma xskmap_ok_run: "xskmap_ok (ctl_run ops)"
  by (simp add: ctl_run_def xskmap_ok_fold xskmap_ok_created)

lemma xskmap_ok_kernel_with: "xskmap_ok (xsks_map (kernel_with (ctl_run ops)))"
  by (simp add: kernel_with_def xskmap_ok_run)

subsection \<open>The two paths of the program\<close>

lemmas prog_defs =
  xsk_redir_prog_def bpf_map_lookup_elem_def bpf_redirect_map_def Let_def

lemma prog_hit:
  assumes "xsk_map_lookup_elem (xsks_map s) (rx_queue_index ctx) = Some sock"
  shows "xsk_redir_prog ctx s =
    (XDP_REDIRECT,
     s\<lparr>helper_calls := helper_calls s @
          [Call_map_lookup_elem (rx_queue_index ctx),
           Call_redirect_map (ucast (rx_queue_index ctx)) 0],
       ri := \<lparr>tgt_index = rx_queue_index ctx, tgt_value = Some sock,
               map_type = BPF_MAP_TYPE_XSKMAP, flags = 0\<rparr>\<rparr>)"
  using assms by (simp add: prog_defs widen_narrow_index XDP_REDIRECT_def)

lemma prog_miss:
  assumes "xsk_map_lookup_elem (xsks_map s) (rx_queue_index ctx) = None"
  shows "xsk_redir_prog ctx s =
    (XDP_PASS,
     s\<lparr>helper_calls := helper_calls s @ [Call_map_lookup_elem (rx_queue_index ctx)]\<rparr>)"
  using assms by (simp add: prog_defs)

text \<open>
  With no write between the two reads the verdict is one of two, and the helper calls
  made are the lookup alone or the lookup followed by the redirect.
\<close>

lemma two_outcomes_fixed_table:
  "fst (xsk_redir_prog ctx s) = XDP_PASS \<or> fst (xsk_redir_prog ctx s) = XDP_REDIRECT"
  by (cases "xsk_map_lookup_elem (xsks_map s) (rx_queue_index ctx)")
     (simp_all add: prog_miss prog_hit)

lemma prog_helper_calls:
  "helper_calls (snd (xsk_redir_prog ctx s)) =
     helper_calls s @ [Call_map_lookup_elem (rx_queue_index ctx)] \<or>
   helper_calls (snd (xsk_redir_prog ctx s)) =
     helper_calls s @
       [Call_map_lookup_elem (rx_queue_index ctx),
        Call_redirect_map (ucast (rx_queue_index ctx)) 0]"
  by (cases "xsk_map_lookup_elem (xsks_map s) (rx_queue_index ctx)")
     (simp_all add: prog_miss prog_hit)

subsection \<open>The program beside a running control plane\<close>

text \<open>Without a write in between, the interleaved run is the plain one.\<close>

lemma interleaved_Nil: "xsk_redir_prog_interleaved [] ctx s = xsk_redir_prog ctx s"
  by (simp add: xsk_redir_prog_interleaved_def xsk_redir_prog_def Let_def
      split: prod.split)

text \<open>
  A miss on the first read passes whatever the control plane does afterwards; a hit on the
  first read followed by a miss on the second yields the low two bits of the flags of
  line 17, which are \<^verbatim>\<open>XDP_ABORTED\<close>.
\<close>

lemma interleaved_miss:
  assumes "xsk_map_lookup_elem (xsks_map s) (rx_queue_index ctx) = None"
  shows "fst (xsk_redir_prog_interleaved between ctx s) = XDP_PASS"
  using assms by (simp add: xsk_redir_prog_interleaved_def bpf_map_lookup_elem_def)

lemma interleaved_hit_then_hit:
  assumes "xsk_map_lookup_elem (xsks_map s) (rx_queue_index ctx) = Some sock"
    and "xsk_map_lookup_elem (fold ctl_step between (xsks_map s)) (rx_queue_index ctx) =
           Some sock'"
  shows "fst (xsk_redir_prog_interleaved between ctx s) = XDP_REDIRECT"
  using assms
  by (simp add: xsk_redir_prog_interleaved_def bpf_map_lookup_elem_def bpf_redirect_map_def
      Let_def widen_narrow_index XDP_REDIRECT_def)

lemma interleaved_hit_then_miss:
  assumes "xsk_map_lookup_elem (xsks_map s) (rx_queue_index ctx) = Some sock"
    and "xsk_map_lookup_elem (fold ctl_step between (xsks_map s)) (rx_queue_index ctx) = None"
  shows "fst (xsk_redir_prog_interleaved between ctx s) = XDP_ABORTED"
  using assms
  by (simp add: xsk_redir_prog_interleaved_def bpf_map_lookup_elem_def bpf_redirect_map_def
      Let_def widen_narrow_index XDP_ABORTED_def)

text \<open>
  The helper lets its caller choose the verdict of a miss: called with \<^verbatim>\<open>XDP_PASS\<close> as
  flags it returns \<^verbatim>\<open>XDP_PASS\<close> or \<^verbatim>\<open>XDP_REDIRECT\<close>, whatever the table holds.
\<close>

lemma redirect_map_pass_fallback:
  "fst (bpf_redirect_map key (ucast XDP_PASS) s) = ucast XDP_PASS \<or>
   fst (bpf_redirect_map key (ucast XDP_PASS) s) = ucast XDP_REDIRECT"
  by (simp add: bpf_redirect_map_def Let_def XDP_PASS_def XDP_REDIRECT_def
      split: option.split)

section \<open>The claims\<close>

text \<open>
  C1. For every queue index \<open>q\<close> that has a Registry entry bound to socket \<open>sock\<close>, a
  frame that arrived on \<open>q\<close> gets the verdict \<^verbatim>\<open>XDP_REDIRECT\<close>, the recorded redirect
  target is the table \<^verbatim>\<open>xsks_map\<close> at index \<open>q\<close> itself (the queue the frame arrived
  on, never another one), and that target resolves to \<open>sock\<close>.
\<close>

theorem C1_redirect_same_queue:
  assumes "xskmap_ok (xsks_map s)"
    and "(rx_queue_index ctx, sock) \<in> set (entries (xsks_map s))"
  shows "fst (xsk_redir_prog ctx s) = XDP_REDIRECT \<and>
         tgt_index (ri (snd (xsk_redir_prog ctx s))) = rx_queue_index ctx \<and>
         map_type (ri (snd (xsk_redir_prog ctx s))) = BPF_MAP_TYPE_XSKMAP \<and>
         tgt_value (ri (snd (xsk_redir_prog ctx s))) = Some sock"
proof -
  have "xsk_map_lookup_elem (xsks_map s) (rx_queue_index ctx) = Some sock"
    using assms by (simp add: lookup_entry)
  then show ?thesis
    by (simp add: prog_hit)
qed

text \<open>Scenario A: queue 3 is bound to socket 7 and a frame arrives on queue 3.\<close>

theorem C1_redirect_same_queue_witness:
  "xskmap_ok (xsks_map (kernel_with (ctl_run [Bind 3 7]))) \<and>
   (rx_queue_index (frame_on 3), 7) \<in> set (entries (xsks_map (kernel_with (ctl_run [Bind 3 7])))) \<and>
   fst (xsk_redir_prog (frame_on 3) (kernel_with (ctl_run [Bind 3 7]))) = XDP_REDIRECT \<and>
   tgt_index (ri (snd (xsk_redir_prog (frame_on 3) (kernel_with (ctl_run [Bind 3 7]))))) = 3 \<and>
   tgt_value (ri (snd (xsk_redir_prog (frame_on 3) (kernel_with (ctl_run [Bind 3 7]))))) = Some 7"
proof -
  have ok: "xskmap_ok (xsks_map (kernel_with (ctl_run [Bind 3 7])))"
    by (rule xskmap_ok_kernel_with)
  have bound: "(rx_queue_index (frame_on 3), 7) \<in>
      set (entries (xsks_map (kernel_with (ctl_run [Bind 3 7]))))"
    by code_simp
  have q: "rx_queue_index (frame_on 3) = 3"
    by (simp add: frame_on_def)
  show ?thesis
    using ok bound C1_redirect_same_queue [OF ok bound] by (simp add: q)
qed

text \<open>
  C2. For every queue index with no Registry entry the lookup misses and the verdict is
  \<^verbatim>\<open>XDP_PASS\<close>; the miss is handled inside the program, which records no redirect target
  and reports nothing else.
\<close>

theorem C2_miss_passes:
  assumes "xskmap_ok (xsks_map s)"
    and "rx_queue_index ctx \<notin> fst ` set (entries (xsks_map s))"
  shows "fst (xsk_redir_prog ctx s) = XDP_PASS \<and> ri (snd (xsk_redir_prog ctx s)) = ri s"
  using assms by (simp add: lookup_miss prog_miss)

text \<open>Scenario B: only queue 3 is bound and a frame arrives on queue 5.\<close>

theorem C2_miss_passes_witness:
  "xskmap_ok (xsks_map (kernel_with (ctl_run [Bind 3 7]))) \<and>
   rx_queue_index (frame_on 5) \<notin> fst ` set (entries (xsks_map (kernel_with (ctl_run [Bind 3 7])))) \<and>
   fst (xsk_redir_prog (frame_on 5) (kernel_with (ctl_run [Bind 3 7]))) = XDP_PASS \<and>
   ri (snd (xsk_redir_prog (frame_on 5) (kernel_with (ctl_run [Bind 3 7])))) =
     ri (kernel_with (ctl_run [Bind 3 7]))"
proof -
  have ok: "xskmap_ok (xsks_map (kernel_with (ctl_run [Bind 3 7])))"
    by (rule xskmap_ok_kernel_with)
  have free: "rx_queue_index (frame_on 5) \<notin>
      fst ` set (entries (xsks_map (kernel_with (ctl_run [Bind 3 7]))))"
    by code_simp
  show ?thesis
    using ok free C2_miss_passes [OF ok free] by simp
qed

text \<open>
  C3. The claim: whatever the queue index and whatever the state of the Registry, every
  invocation ends in one of exactly two verdicts, \<^verbatim>\<open>XDP_PASS\<close> or \<^verbatim>\<open>XDP_REDIRECT\<close>, and
  never in a drop or an abort. The program does not keep it: queue 3 is bound to socket 7,
  a frame arrives on queue 3, the lookup of line 16 finds the entry, the control plane
  unbinds queue 3, and the redirect of line 17, called with flags 0, misses and makes the
  verdict \<^verbatim>\<open>XDP_ABORTED\<close>, which is neither of the two.
\<close>

theorem C3_abort_on_unbind_between_reads:
  "fst (xsk_redir_prog_interleaved [Unbind 3] (frame_on 3) (kernel_with (ctl_run [Bind 3 7])))
     = XDP_ABORTED \<and>
   XDP_ABORTED \<noteq> XDP_PASS \<and> XDP_ABORTED \<noteq> XDP_REDIRECT"
proof -
  have "fst (xsk_redir_prog_interleaved [Unbind 3] (frame_on 3)
          (kernel_with (ctl_run [Bind 3 7]))) = XDP_ABORTED"
    by code_simp
  then show ?thesis
    by (simp add: XDP_ABORTED_def XDP_PASS_def XDP_REDIRECT_def)
qed

text \<open>
  C4. The Registry never holds more than 64 entries: after any history of binds and
  unbinds on the table as created, at most 64 queues are bound. When 64 are bound, an
  attempt to bind one more distinct queue index is rejected, and the table (hence every
  entry registered before) is unchanged.
\<close>

theorem C4_capacity:
  "length (entries (ctl_run ops)) \<le> 64 \<and>
   (length (entries (ctl_run ops)) = 64 \<and> q \<notin> fst ` set (entries (ctl_run ops)) \<longrightarrow>
      bind_queue q sock (ctl_run ops) = (Rejected, ctl_run ops))"
proof -
  let ?m = "ctl_run ops"
  have ok: "xskmap_ok ?m"
    by (rule xskmap_ok_run)
  then have len: "length ?m = 64"
    by (simp add: xskmap_ok_def max_entries_unat)
  have le: "length (entries ?m) \<le> 64"
    using length_entries_le [of ?m] len by simp
  have "bind_queue q sock ?m = (Rejected, ?m)"
    if full: "length (entries ?m) = 64" and free: "q \<notin> fst ` set (entries ?m)"
  proof (cases "max_entries \<le> q")
    case True
    then show ?thesis
      by (simp add: bind_queue_def)
  next
    case False
    then have k: "unat q < 64"
      by (simp add: max_entries_le_iff)
    then have "?m ! unat q \<noteq> None"
      using entries_full [of ?m "unat q"] full len by simp
    then obtain s' where "?m ! unat q = Some s'"
      by blast
    then have "(q, s') \<in> set (entries ?m)"
      using ok k by (simp add: entries_iff)
    then have "q \<in> fst ` set (entries ?m)"
      by force
    with free show ?thesis by simp
  qed
  with le show ?thesis by blast
qed

text \<open>Scenario C: queues 0 to 63 are bound, then a bind of queue 64 is attempted.\<close>

theorem C4_capacity_witness:
  "length (entries (ctl_run bind_all_queues)) = 64 \<and>
   64 \<notin> fst ` set (entries (ctl_run bind_all_queues)) \<and>
   bind_queue 64 7 (ctl_run bind_all_queues) = (Rejected, ctl_run bind_all_queues)"
proof -
  have full: "length (entries (ctl_run bind_all_queues)) = 64"
    by code_simp
  have free: "64 \<notin> fst ` set (entries (ctl_run bind_all_queues))"
    by code_simp
  show ?thesis
    using full free C4_capacity [of bind_all_queues 64 7] by simp
qed

text \<open>
  C5. The verdict is a function of the receive-queue index and the contents of the table
  alone. Two invocations whose frames arrived on the same queue, against the same table,
  return the same verdict and, when it is a redirect, record the same target, whatever
  the other fields of the delivery context and whatever was recorded before; and invoking
  the program again after an invocation returns the same verdict.
\<close>

theorem C5_deterministic:
  assumes "rx_queue_index ctx1 = rx_queue_index ctx2"
    and "xsks_map s1 = xsks_map s2"
  shows "fst (xsk_redir_prog ctx1 s1) = fst (xsk_redir_prog ctx2 s2) \<and>
         (fst (xsk_redir_prog ctx1 s1) = XDP_REDIRECT \<longrightarrow>
            ri (snd (xsk_redir_prog ctx1 s1)) = ri (snd (xsk_redir_prog ctx2 s2))) \<and>
         fst (xsk_redir_prog ctx1 (snd (xsk_redir_prog ctx1 s1))) = fst (xsk_redir_prog ctx1 s1)"
proof (cases "xsk_map_lookup_elem (xsks_map s1) (rx_queue_index ctx1)")
  case None
  then have "xsk_map_lookup_elem (xsks_map s2) (rx_queue_index ctx2) = None"
    using assms by simp
  with None show ?thesis
    by (simp add: prog_miss XDP_PASS_def XDP_REDIRECT_def)
next
  case (Some sock)
  then have "xsk_map_lookup_elem (xsks_map s2) (rx_queue_index ctx2) = Some sock"
    using assms by simp
  with Some assms show ?thesis
    by (simp add: prog_hit)
qed

text \<open>
  Two frames on queue 3 that differ in every other field, against the table of scenario A,
  the second invocation starting from a state that already records a redirect target.
\<close>

theorem C5_deterministic_witness:
  "rx_queue_index (frame_on 3) =
     rx_queue_index ((frame_on 3)\<lparr>data := 4096, data_end := 5610, ingress_ifindex := 9\<rparr>) \<and>
   xsks_map (kernel_with (ctl_run [Bind 3 7])) =
     xsks_map ((kernel_with (ctl_run [Bind 3 7]))
       \<lparr>ri := \<lparr>tgt_index = 9, tgt_value = Some 1, map_type = BPF_MAP_TYPE_XSKMAP, flags = 0\<rparr>\<rparr>) \<and>
   fst (xsk_redir_prog (frame_on 3) (kernel_with (ctl_run [Bind 3 7]))) = XDP_REDIRECT \<and>
   fst (xsk_redir_prog
         ((frame_on 3)\<lparr>data := 4096, data_end := 5610, ingress_ifindex := 9\<rparr>)
         ((kernel_with (ctl_run [Bind 3 7]))
           \<lparr>ri := \<lparr>tgt_index = 9, tgt_value = Some 1, map_type = BPF_MAP_TYPE_XSKMAP,
                   flags = 0\<rparr>\<rparr>)) = XDP_REDIRECT \<and>
   ri (snd (xsk_redir_prog (frame_on 3) (kernel_with (ctl_run [Bind 3 7])))) =
   ri (snd (xsk_redir_prog
         ((frame_on 3)\<lparr>data := 4096, data_end := 5610, ingress_ifindex := 9\<rparr>)
         ((kernel_with (ctl_run [Bind 3 7]))
           \<lparr>ri := \<lparr>tgt_index = 9, tgt_value = Some 1, map_type = BPF_MAP_TYPE_XSKMAP,
                   flags = 0\<rparr>\<rparr>)))"
proof -
  let ?ctx2 = "(frame_on 3)\<lparr>data := 4096, data_end := 5610, ingress_ifindex := 9\<rparr>"
  let ?s1 = "kernel_with (ctl_run [Bind 3 7])"
  let ?s2 = "?s1\<lparr>ri := \<lparr>tgt_index = 9, tgt_value = Some 1, map_type = BPF_MAP_TYPE_XSKMAP,
                         flags = 0\<rparr>\<rparr>"
  have same_queue: "rx_queue_index (frame_on 3) = rx_queue_index ?ctx2"
    by simp
  have same_table: "xsks_map ?s1 = xsks_map ?s2"
    by simp
  have redirect: "fst (xsk_redir_prog (frame_on 3) ?s1) = XDP_REDIRECT"
    by code_simp
  show ?thesis
    using same_queue same_table redirect
      C5_deterministic [OF same_queue same_table] by simp
qed

text \<open>
  C6. For every queue index at or beyond the capacity of 64, which is outside the key
  range of the table, the lookup misses whatever the table holds, and the verdict is
  \<^verbatim>\<open>XDP_PASS\<close>.
\<close>

theorem C6_beyond_capacity_passes:
  assumes "max_entries \<le> rx_queue_index ctx"
  shows "fst (bpf_map_lookup_elem (rx_queue_index ctx) s) = None \<and>
         fst (xsk_redir_prog ctx s) = XDP_PASS"
  using assms by (simp add: prog_miss xsk_map_lookup_elem_def bpf_map_lookup_elem_def)

text \<open>A frame on queue 64 while all 64 queues of the table are bound.\<close>

theorem C6_beyond_capacity_passes_witness:
  "max_entries \<le> rx_queue_index (frame_on 64) \<and>
   fst (bpf_map_lookup_elem (rx_queue_index (frame_on 64))
         (kernel_with (ctl_run bind_all_queues))) = None \<and>
   fst (xsk_redir_prog (frame_on 64) (kernel_with (ctl_run bind_all_queues))) = XDP_PASS"
proof -
  have beyond: "max_entries \<le> rx_queue_index (frame_on 64)"
    by (simp add: max_entries_def frame_on_def)
  show ?thesis
    using beyond
      C6_beyond_capacity_passes [OF beyond, of "kernel_with (ctl_run bind_all_queues)"]
    by simp
qed

text \<open>
  C7. The verdict depends on which queues are bound, not on the sockets they are bound to:
  against two tables that bind the same set of queue indices, possibly to different
  sockets, a frame gets the same verdict and, when it is a redirect, the same target index.
\<close>

theorem C7_socket_independent:
  assumes "xskmap_ok (xsks_map s1)" and "xskmap_ok (xsks_map s2)"
    and "fst ` set (entries (xsks_map s1)) = fst ` set (entries (xsks_map s2))"
  shows "fst (xsk_redir_prog ctx s1) = fst (xsk_redir_prog ctx s2) \<and>
         (fst (xsk_redir_prog ctx s1) = XDP_REDIRECT \<longrightarrow>
            tgt_index (ri (snd (xsk_redir_prog ctx s1))) =
            tgt_index (ri (snd (xsk_redir_prog ctx s2))))"
proof (cases "xsk_map_lookup_elem (xsks_map s1) (rx_queue_index ctx)")
  case None
  then have "xsk_map_lookup_elem (xsks_map s2) (rx_queue_index ctx) = None"
    using assms by (simp add: lookup_miss)
  with None show ?thesis
    by (simp add: prog_miss XDP_PASS_def XDP_REDIRECT_def)
next
  case (Some sock)
  then have "xsk_map_lookup_elem (xsks_map s2) (rx_queue_index ctx) \<noteq> None"
    using assms lookup_miss [of "xsks_map s1" "rx_queue_index ctx"]
      lookup_miss [of "xsks_map s2" "rx_queue_index ctx"] by simp
  then obtain sock' where "xsk_map_lookup_elem (xsks_map s2) (rx_queue_index ctx) = Some sock'"
    by blast
  with Some show ?thesis
    by (simp add: prog_hit)
qed

text \<open>Queue 2 bound to socket 9 in one table and to socket 11 in the other.\<close>

theorem C7_socket_independent_witness:
  "xskmap_ok (xsks_map (kernel_with (ctl_run [Bind 2 9]))) \<and>
   xskmap_ok (xsks_map (kernel_with (ctl_run [Bind 2 11]))) \<and>
   fst ` set (entries (xsks_map (kernel_with (ctl_run [Bind 2 9])))) =
     fst ` set (entries (xsks_map (kernel_with (ctl_run [Bind 2 11])))) \<and>
   fst (xsk_redir_prog (frame_on 2) (kernel_with (ctl_run [Bind 2 9]))) = XDP_REDIRECT \<and>
   fst (xsk_redir_prog (frame_on 2) (kernel_with (ctl_run [Bind 2 11]))) = XDP_REDIRECT \<and>
   tgt_index (ri (snd (xsk_redir_prog (frame_on 2) (kernel_with (ctl_run [Bind 2 9]))))) =
   tgt_index (ri (snd (xsk_redir_prog (frame_on 2) (kernel_with (ctl_run [Bind 2 11])))))"
proof -
  have ok1: "xskmap_ok (xsks_map (kernel_with (ctl_run [Bind 2 9])))"
    and ok2: "xskmap_ok (xsks_map (kernel_with (ctl_run [Bind 2 11])))"
    by (rule xskmap_ok_kernel_with)+
  have same_queues:
    "fst ` set (entries (xsks_map (kernel_with (ctl_run [Bind 2 9])))) =
     fst ` set (entries (xsks_map (kernel_with (ctl_run [Bind 2 11]))))"
    by code_simp
  have redirect:
    "fst (xsk_redir_prog (frame_on 2) (kernel_with (ctl_run [Bind 2 9]))) = XDP_REDIRECT"
    by code_simp
  show ?thesis
    using ok1 ok2 same_queues redirect
      C7_socket_independent [OF ok1 ok2 same_queues, of "frame_on 2"] by simp
qed

text \<open>
  C8. Re-registration is last-write-wins: after queue \<open>q\<close> is bound to socket \<open>s1\<close>, a
  bind of the same queue to socket \<open>s2\<close> is accepted and leaves exactly one Registry
  entry for \<open>q\<close>, whose socket is \<open>s2\<close>.
\<close>

theorem C8_last_write_wins:
  assumes "xskmap_ok m" and "bind_queue q s1 m = (Accepted, m1)"
  shows "fst (bind_queue q s2 m1) = Accepted \<and>
         filter (\<lambda>e. fst e = q) (entries (snd (bind_queue q s2 m1))) = [(q, s2)]"
proof -
  have lt: "\<not> max_entries \<le> q" and m1: "m1 = m[unat q := Some s1]"
    using assms(2) by (auto simp: bind_queue_def split: if_splits)
  let ?m2 = "m1[unat q := Some s2]"
  have ok2: "xskmap_ok ?m2"
    using assms(1) m1 by (simp add: xskmap_ok_def)
  then have len: "length ?m2 = 64"
    by (simp add: xskmap_ok_def max_entries_unat)
  have k: "unat q < 64"
    using lt by (simp add: max_entries_le_iff)
  have "(q, s2) \<in> set (entries ?m2)"
    using ok2 k len by (simp add: entries_iff)
  moreover have "distinct (map fst (entries ?m2))"
    unfolding entries_def by (rule distinct_entries_from) (use len in simp)
  ultimately have "filter (\<lambda>e. fst e = q) (entries ?m2) = [(q, s2)]"
    by (rule filter_unique_key [rotated])
  moreover have "bind_queue q s2 m1 = (Accepted, ?m2)"
    using lt by (simp add: bind_queue_def)
  ultimately show ?thesis by simp
qed

text \<open>Scenario D: queue 2 is bound to socket 9, then rebound to socket 11.\<close>

theorem C8_last_write_wins_witness:
  "xskmap_ok xsks_map_created \<and>
   bind_queue 2 9 xsks_map_created = (Accepted, ctl_run [Bind 2 9]) \<and>
   fst (bind_queue 2 11 (ctl_run [Bind 2 9])) = Accepted \<and>
   filter (\<lambda>e. fst e = 2) (entries (snd (bind_queue 2 11 (ctl_run [Bind 2 9])))) = [(2, 11)]"
proof -
  have ok: "xskmap_ok xsks_map_created"
    by (rule xskmap_ok_created)
  have first: "bind_queue 2 9 xsks_map_created = (Accepted, ctl_run [Bind 2 9])"
    by (simp add: ctl_run_def bind_queue_def max_entries_def)
  show ?thesis
    using ok first C8_last_write_wins [OF ok first, of 11] by simp
qed

text \<open>
  C9. Every invocation of the program leaves the contents of \<^verbatim>\<open>xsks_map\<close> as they were:
  the program creates, updates and deletes no entry.
\<close>

theorem C9_registry_unchanged:
  "xsks_map (snd (xsk_redir_prog ctx s)) = xsks_map s"
  by (cases "xsk_map_lookup_elem (xsks_map s) (rx_queue_index ctx)")
     (simp_all add: prog_miss prog_hit)

end
